theory Spec2Isabelle
  imports Main "HOL-Library.AList"
begin

section \<open>Python strings\<close>

text \<open>
  A Python \<open>str\<close> is a sequence of code points. The model is \<open>string\<close>, one
  \<open>char\<close> per code point, so it covers the code points below 256 (Latin-1), which
  hold every literal of the two source files (the accented letters of the Spanish
  messages are written \<open>CHR 0xF3\<close> and the like). On that range \<open>str.isspace\<close>,
  \<open>str.lower\<close> and \<open>str.strip\<close> are the functions below.
\<close>

definition isspace :: "char \<Rightarrow> bool" where
  "isspace c = ((of_char c :: nat) \<in> {9, 10, 11, 12, 13, 28, 29, 30, 31, 32, 133, 160})"

definition lower_char :: "char \<Rightarrow> char" where
  "lower_char c =
     (let n = (of_char c :: nat)
      in if (65 \<le> n \<and> n \<le> 90) \<or> (192 \<le> n \<and> n \<le> 222 \<and> n \<noteq> 215)
         then char_of (n + 32) else c)"

definition lower :: "string \<Rightarrow> string" where
  "lower s = map lower_char s"

definition lstrip :: "string \<Rightarrow> string" where
  "lstrip s = dropWhile isspace s"

definition rstrip :: "string \<Rightarrow> string" where
  "rstrip s = rev (dropWhile isspace (rev s))"

definition strip :: "string \<Rightarrow> string" where
  "strip s = rstrip (lstrip s)"

text \<open>\<open>sep.join(parts)\<close>.\<close>

fun join :: "string \<Rightarrow> string list \<Rightarrow> string" where
  "join sep [] = []"
| "join sep [x] = x"
| "join sep (x # y # ys) = x @ sep @ join sep (y # ys)"

text \<open>\<open>str(n)\<close> of a non-negative integer, as the f-strings format \<open>len(...)\<close>.\<close>

fun str_nat :: "nat \<Rightarrow> string" where
  "str_nat n =
     (if n < 10 then [char_of (48 + n)]
      else str_nat (n div 10) @ [char_of (48 + n mod 10)])"

declare str_nat.simps [simp del]

text \<open>The apostrophe and the line feed, which a string literal cannot hold.\<close>

definition apos :: string where
  "apos = [CHR 0x27]"

definition nl :: string where
  "nl = [CHR 0x0A]"

section \<open>Exceptions, documents and the vector store\<close>

text \<open>An exception is its class name and \<open>str(e)\<close>.\<close>

datatype exn = Exn (clase: string) (str_exn: string)

text \<open>
  A langchain \<open>Document\<close>: the text and the metadata dictionary (insertion ordered,
  values rendered as strings).
\<close>

record documento =
  page_content :: string
  metadata :: "(string \<times> string) list"

type_synonym vector = "int list"

text \<open>
  The Chroma handle. The collection is what the persistent directory holds. The two
  remote parts are black boxes: embedding the query (which can raise) and the distance
  of the query vector to a stored chunk.
\<close>

record chroma =
  coleccion :: "documento list"
  embed_query :: "string \<Rightarrow> exn + vector"
  distancia :: "vector \<Rightarrow> documento \<Rightarrow> nat"

text \<open>A metadata filter \<open>{"k": v, ...}\<close> keeps the chunks holding every pair.\<close>

definition coincide :: "(string \<times> string) list \<Rightarrow> documento \<Rightarrow> bool" where
  "coincide filtro d = list_all (\<lambda>(k, v). map_of (metadata d) k = Some v) filtro"

text \<open>
  \<open>db.similarity_search(query, k=k, filter=filtro)\<close>: the \<open>k\<close> nearest chunks among
  those the filter keeps.
\<close>

definition similarity_search ::
  "chroma \<Rightarrow> string \<Rightarrow> nat \<Rightarrow> (string \<times> string) list \<Rightarrow> exn + documento list" where
  "similarity_search d query k filtro =
     (case embed_query d query of
        Inl e \<Rightarrow> Inl e
      | Inr v \<Rightarrow> Inr (take k (sort_key (distancia d v) (filter (coincide filtro) (coleccion d)))))"

section \<open>The query service (main.py)\<close>

record solicitud_contexto =
  pregunta_de :: string
  entidad_de :: string

text \<open>The module globals \<open>db\<close> and \<open>llm\<close>; \<open>llm.invoke(prompt).content\<close> is a black box.\<close>

record estado =
  db :: "chroma option"
  llm :: "(string \<Rightarrow> exn + string) option"

text \<open>
  What the endpoint gives back: the returned dictionary (status 200), or the
  \<open>HTTPException\<close> with its status code and detail.
\<close>

datatype respuesta = Devuelve "(string \<times> string) list" | HTTPException nat string

fun status_code :: "respuesta \<Rightarrow> nat" where
  "status_code (Devuelve _) = 200"
| "status_code (HTTPException c _) = c"

text \<open>
  Reading a name that is neither assigned in the function nor a module global nor a
  builtin raises \<open>NameError\<close>. The scope given is the string-valued names bound at
  the point of the read.
\<close>

definition leer_nombre :: "(string \<times> string) list \<Rightarrow> string \<Rightarrow> exn + string" where
  "leer_nombre ambito nombre =
     (case map_of ambito nombre of
        Some v \<Rightarrow> Inr v
      | None \<Rightarrow> Inl (Exn ''NameError'' (''name '' @ apos @ nombre @ apos @ '' is not defined'')))"

definition mensaje_sin_contexto :: "string \<Rightarrow> string" where
  "mensaje_sin_contexto entidad =
     ''No se encontr'' @ [CHR 0xF3] @ '' informaci'' @ [CHR 0xF3] @ ''n espec'' @ [CHR 0xED]
     @ ''fica para la entidad '' @ apos @ entidad @ apos @ '' sobre la consulta realizada.''"

definition sangria :: string where
  "sangria = replicate 8 CHR '' ''"

definition prompt_de_sintesis :: "string \<Rightarrow> string \<Rightarrow> string \<Rightarrow> string" where
  "prompt_de_sintesis entidad pregunta contexto_bruto =
     nl @ sangria @ ''Act'' @ [CHR 0xFA] @ ''a como un analista t'' @ [CHR 0xE9]
       @ ''cnico experto en el PDOT de la entidad: '' @ entidad @ ''.''
     @ nl @ sangria @ ''A continuaci'' @ [CHR 0xF3]
       @ ''n se te proporciona un texto en bruto extra'' @ [CHR 0xED]
       @ ''do del documento de planificaci'' @ [CHR 0xF3] @ ''n de '' @ entidad
       @ '' y una pregunta del usuario. ''
     @ nl @ sangria @ ''Tu tarea es sintetizar la informaci'' @ [CHR 0xF3]
       @ ''n del texto en bruto para responder a la pregunta de forma clara y concisa.''
     @ nl
     @ nl @ sangria @ ''PREGUNTA DEL USUARIO:''
     @ nl @ sangria @ pregunta
     @ nl
     @ nl @ sangria @ ''TEXTO EN BRUTO EXTRA'' @ [CHR 0xCD] @ ''DO (Fuente: '' @ entidad @ ''):''
     @ nl @ sangria @ contexto_bruto
     @ nl
     @ nl @ sangria @ ''RESPUESTA SINTETISADA (Enfocada en '' @ entidad @ ''):''
     @ nl @ sangria"

text \<open>
  The body of the \<open>try\<close> block (lines 75 to 111): the result or the exception raised,
  the lines printed, and the prompts passed to \<open>llm.invoke\<close>. The prompt is bound to
  \<open>prompt_sinitesis\<close> (line 93); the argument of \<open>llm.invoke\<close> reads
  \<open>prompt_sintesis\<close> (line 108).
\<close>

definition cuerpo_try ::
  "chroma \<Rightarrow> (string \<Rightarrow> exn + string) \<Rightarrow> string \<Rightarrow> string
     \<Rightarrow> (exn + (string \<times> string) list) \<times> string list \<times> string list" where
  "cuerpo_try d l pregunta entidad =
     (let out0 = [''>>> Buscando contexto en ChromaDB S'' @ [CHR 0xD3]
                    @ ''LO con la etiqueta: '' @ apos @ ''fuente'' @ apos @ '': ''
                    @ apos @ entidad @ apos @ ''...'']
      in case similarity_search d pregunta 10 [(''fuente'', entidad)] of
           Inl e \<Rightarrow> (Inl e, out0, [])
         | Inr docs_relevantes \<Rightarrow>
             if docs_relevantes = []
             then (Inr [(''contexto'', mensaje_sin_contexto entidad)],
                   out0 @ [''>>> No se encontr'' @ [CHR 0xF3]
                            @ '' contexto relevante PARA ESA ENTIDAD.''],
                   [])
             else
               (let contexto_bruto =
                      join (nl @ nl @ ''---'' @ nl @ nl) (map page_content docs_relevantes);
                    prompt_sinitesis = prompt_de_sintesis entidad pregunta contexto_bruto;
                    ambito = [(''pregunta'', pregunta), (''entidad'', entidad),
                              (''contexto_bruto'', contexto_bruto),
                              (''prompt_sinitesis'', prompt_sinitesis)];
                    out1 = out0 @ [''>>> Sintetizando la respuesta con GPT-4o (Contexto: ''
                                    @ entidad @ '')...'']
                in case leer_nombre ambito ''prompt_sintesis'' of
                     Inl e \<Rightarrow> (Inl e, out1, [])
                   | Inr argumento \<Rightarrow>
                       (case l argumento of
                          Inl e \<Rightarrow> (Inl e, out1, [argumento])
                        | Inr content \<Rightarrow>
                            (Inr [(''contexto'', content)],
                             out1 @ [''>>> Respuesta final generada.''],
                             [argumento]))))"

text \<open>
  The endpoint \<open>POST /extraer-contexto-pdot\<close>. \<open>format_exc\<close> is
  \<open>traceback.format_exc()\<close> for the exception being handled. The result is the
  response, the lines printed and the prompts passed to the generation model.
\<close>

definition extraer_contexto ::
  "(exn \<Rightarrow> string) \<Rightarrow> estado \<Rightarrow> solicitud_contexto
     \<Rightarrow> respuesta \<times> string list \<times> string list" where
  "extraer_contexto format_exc st solicitud =
     (let pregunta = pregunta_de solicitud;
          entidad = strip (lower (entidad_de solicitud));
          out = [''>>> Solicitud recibida: Entidad='' @ apos @ entidad @ apos
                  @ '', Pregunta='' @ apos @ pregunta @ apos]
      in if db st = None \<or> llm st = None
         then (HTTPException 503
                 (''Servicio no disponible: Los componentes de IA no est''
                  @ [CHR 0xE1] @ ''n cargados.''), out, [])
         else if entidad = []
         then (HTTPException 400
                 (''Error: El campo '' @ apos @ ''entidad'' @ apos
                  @ '' no puede estar vac'' @ [CHR 0xED] @ ''o.''), out, [])
         else
           (case cuerpo_try (the (db st)) (the (llm st)) pregunta entidad of
              (Inr r, out', prompts) \<Rightarrow> (Devuelve r, out @ out', prompts)
            | (Inl e, out', prompts) \<Rightarrow>
                (let error_detallado = format_exc e
                 in (HTTPException 500
                       (''Error interno del servidor: '' @ str_exn e @ nl @ error_detallado),
                     out @ out'
                       @ [''!!! ERROR DURANTE EL PROCESAMIENTO DE LA SOLICITUD: ''
                          @ error_detallado],
                     prompts))))"

section \<open>The host and the remote services\<close>

text \<open>
  What stands at a path that exists (\<open>os.path.exists\<close> is true). Either
  \<open>PyPDFLoader(path)\<close> raises (a path that is not a file, say a directory of that
  name, gives \<open>ValueError\<close>), or the loader is built and \<open>loader.load()\<close> returns
  the pages or raises.
\<close>

datatype ruta = SinCargador exn | ConCargador "exn + documento list"

text \<open>
  The host: the process environment (after \<open>load_dotenv()\<close>), the paths that exist,
  and the directory \<open>db_pdot\<close> (absent, or the chunks of the collection it holds).
  Both programs name the same directory.
\<close>

record anfitrion =
  environ :: "(string \<times> string) list"
  archivos :: "(string \<times> ruta) list"
  directorio_db :: "documento list option"

text \<open>
  The third-party parts, black boxes of the model: the embeddings provider, the
  distance of the vector index, the generation model, the text splitter and
  \<open>traceback.format_exc()\<close>.
\<close>

record servicios =
  embed_query_de :: "string \<Rightarrow> exn + vector"
  distancia_de :: "vector \<Rightarrow> documento \<Rightarrow> nat"
  invoke_de :: "string \<Rightarrow> exn + string"
  split_documents :: "documento list \<Rightarrow> documento list"
  embed_documents :: "string list \<Rightarrow> exn + vector list"
  format_exc_de :: "exn \<Rightarrow> string"

definition getenv :: "anfitrion \<Rightarrow> string \<Rightarrow> string option" where
  "getenv h k = map_of (environ h) k"

text \<open>Truth value of an optional string: \<open>None\<close> and \<open>""\<close> are false.\<close>

fun truthy :: "string option \<Rightarrow> bool" where
  "truthy None = False"
| "truthy (Some s) = (s \<noteq> [])"

definition DIRECTORIO_DB :: string where
  "DIRECTORIO_DB = ''db_pdot''"

section \<open>Start of the query service (main.py, startup\_event)\<close>

text \<open>
  The result is the exception re-raised by the handler (if any), the globals after the
  event and the lines printed. The constructors of the three clients are taken not to
  raise; the two \<open>raise\<close> statements of the source are the branches below.
\<close>

definition startup_event ::
  "servicios \<Rightarrow> anfitrion \<Rightarrow> estado \<Rightarrow> exn option \<times> estado \<times> string list" where
  "startup_event sv h st =
     (let GOOGLE_API_KEY = getenv h ''GOOGLE_API_KEY'';
          OPENAI_API_KEY = getenv h ''OPENAI_API_KEY'';
          critico = (\<lambda>e. ''!!! ERROR CR'' @ [CHR 0xCD] @ ''TICO DURANTE EL INICIO: ''
                          @ format_exc_de sv e);
          out0 = [''>>> Evento de inicio: Iniciando carga de componentes...'']
      in if \<not> (truthy GOOGLE_API_KEY \<and> truthy OPENAI_API_KEY)
         then (let e = Exn ''ValueError''
                        ''!!! ERROR FATAL: Faltan claves (GOOGLE o OPENAI) en las variables de entorno.''
               in (Some e, st, out0 @ [critico e]))
         else
           (let out1 = out0 @ [''>>> Claves de API validadas.'',
                               ''>>> Cargando Embeddings de Google...'',
                               ''>>> Cargando Base de Datos Chroma desde '' @ apos
                                 @ DIRECTORIO_DB @ apos @ ''...'']
            in case directorio_db h of
                 None \<Rightarrow>
                   (let e = Exn ''FileNotFoundError''
                              (''!!! ERROR FATAL: No se encuentra el directorio '' @ apos
                               @ DIRECTORIO_DB @ apos @ ''. '' @ [CHR 0xBF]
                               @ ''Olvidaste subir la base de datos?'')
                    in (Some e, st, out1 @ [critico e]))
               | Some chunks \<Rightarrow>
                   (None,
                    \<lparr>db = Some \<lparr>coleccion = chunks,
                                 embed_query = embed_query_de sv,
                                 distancia = distancia_de sv\<rparr>,
                     llm = Some (invoke_de sv)\<rparr>,
                    out1 @ [''>>> Base de Datos Chroma cargada.'',
                            ''>>> Cargando LLM (GPT-4o)...'',
                            ''>>> '' @ [CHR 0xA1] @ ''Todos los componentes cargados con ''
                              @ [CHR 0xE9] @ ''xito! Servidor listo.''])))"

text \<open>The globals before the event: \<open>db = None\<close>, \<open>llm = None\<close>.\<close>

definition estado_inicial :: estado where
  "estado_inicial = \<lparr>db = None, llm = None\<rparr>"

section \<open>The indexer (indexar\_pdot.py)\<close>

definition DIRECTORIO_PERSISTENTE :: string where
  "DIRECTORIO_PERSISTENTE = ''db_pdot''"

definition MAPA_DE_PDOTS :: "(string \<times> string) list" where
  "MAPA_DE_PDOTS =
     [(''paltas'', ''PDOT_Paltas.pdf''),
      (''pindal'', ''PDOT_Pindal.pdf''),
      (''catamayo'', ''PDyOT_Catamayo.pdf''),
      (''chaguarpamba'', ''PDyOT_Chaguarpamba.pdf'')]"

text \<open>The two assignments to \<open>frag.metadata\<close> (lines 74 and 75).\<close>

definition etiquetar :: "string \<Rightarrow> string \<Rightarrow> documento \<Rightarrow> documento" where
  "etiquetar etiqueta nombre_archivo_limpio frag =
     frag\<lparr>metadata :=
       AList.update ''archivo_origen'' nombre_archivo_limpio
         (AList.update ''fuente'' etiqueta (metadata frag))\<rparr>"

definition aviso_no_encontrado :: "string \<Rightarrow> string" where
  "aviso_no_encontrado nombre_archivo_limpio =
     ''!!! ADVERTENCIA: No se encontr'' @ [CHR 0xF3] @ '' el archivo '' @ apos
     @ nombre_archivo_limpio @ apos @ ''. Saltando...''"

definition aviso_error_carga :: "string \<Rightarrow> exn \<Rightarrow> string" where
  "aviso_error_carga nombre_archivo_limpio e =
     ''!!! ERROR al cargar '' @ apos @ nombre_archivo_limpio @ apos @ '': '' @ str_exn e
     @ ''. Saltando este archivo.''"

definition encabezado :: "string \<Rightarrow> string \<Rightarrow> string" where
  "encabezado etiqueta nombre_archivo =
     nl @ ''--- Procesando: '' @ nombre_archivo @ '' (Etiqueta: '' @ apos @ etiqueta @ apos
     @ '') ---''"

definition aviso_cargando :: "string \<Rightarrow> string" where
  "aviso_cargando nombre_archivo_limpio =
     ''    Cargando archivo: '' @ nombre_archivo_limpio @ ''...''"

text \<open>
  One turn of the loop over \<open>MAPA_DE_PDOTS.items()\<close> (lines 46 to 78): the exception
  that leaves the turn (the loader is built on line 55, outside the \<open>try\<close> of lines
  56 to 60), the tagged fragments the turn appends to \<open>todos_los_fragmentos\<close>, and
  the lines it prints.
\<close>

definition procesar_pdot ::
  "servicios \<Rightarrow> anfitrion \<Rightarrow> string \<times> string
     \<Rightarrow> exn option \<times> documento list \<times> string list" where
  "procesar_pdot sv h par =
     (let etiqueta = fst par;
          nombre_archivo = snd par;
          out0 = [encabezado etiqueta nombre_archivo];
          nombre_archivo_limpio = strip nombre_archivo
      in case map_of (archivos h) nombre_archivo_limpio of
           None \<Rightarrow> (None, [], out0 @ [aviso_no_encontrado nombre_archivo_limpio])
         | Some ruta \<Rightarrow>
             (let out1 = out0 @ [aviso_cargando nombre_archivo_limpio]
              in case ruta of
                   SinCargador e \<Rightarrow> (Some e, [], out1)
                 | ConCargador carga \<Rightarrow>
                     (case carga of
                        Inl e \<Rightarrow>
                          (None, [], out1 @ [aviso_error_carga nombre_archivo_limpio e])
                      | Inr documentos \<Rightarrow>
                          (let fragmentos = split_documents sv documentos
                           in (None,
                               map (etiquetar etiqueta nombre_archivo_limpio) fragmentos,
                               out1 @ [''    Cargado. '' @ str_nat (length documentos)
                                         @ '' p'' @ [CHR 0xE1] @ ''ginas encontradas.'',
                                       ''>>> Dividido en '' @ str_nat (length fragmentos)
                                         @ '' fragmentos.'',
                                       ''>>> Fragmentos de '' @ apos @ etiqueta @ apos
                                         @ '' etiquetados y listos.''])))))"

text \<open>
  The loop, on \<open>todos_los_fragmentos\<close> and the lines printed so far. An exception
  that leaves a turn leaves the loop: the entries after it are not examined.
\<close>

fun bucle ::
  "servicios \<Rightarrow> anfitrion \<Rightarrow> (string \<times> string) list
     \<Rightarrow> documento list \<times> string list \<Rightarrow> exn option \<times> documento list \<times> string list" where
  "bucle sv h [] acc = (None, fst acc, snd acc)"
| "bucle sv h (par # resto) acc =
     (case fst (procesar_pdot sv h par) of
        Some e \<Rightarrow>
          (Some e, fst acc @ fst (snd (procesar_pdot sv h par)),
           snd acc @ snd (snd (procesar_pdot sv h par)))
      | None \<Rightarrow>
          bucle sv h resto
            (fst acc @ fst (snd (procesar_pdot sv h par)),
             snd acc @ snd (snd (procesar_pdot sv h par))))"

text \<open>
  \<open>Chroma.from_documents(documents, embedding, persist_directory)\<close>: the collection at
  the directory is opened, or created empty when the directory is absent; the texts are
  embedded, and the chunks are added to what the collection holds. The result is the
  exception raised (if any) and the directory afterwards.
\<close>

definition from_documents ::
  "servicios \<Rightarrow> documento list \<Rightarrow> documento list option
     \<Rightarrow> exn option \<times> documento list option" where
  "from_documents sv documents dir =
     (let existente = (case dir of None \<Rightarrow> [] | Some chunks \<Rightarrow> chunks)
      in case embed_documents sv (map page_content documents) of
           Inl e \<Rightarrow> (Some e, Some existente)
         | Inr vs \<Rightarrow> (None, Some (existente @ documents)))"

text \<open>
  How a run of the script ends: it reaches its last line, it calls \<open>exit()\<close>, or an
  exception nobody handles ends it.
\<close>

datatype fin = Completado | Exit | NoManejada exn

text \<open>The lines printed before the loop, around the new store, and at the empty check.\<close>

definition lineas_inicio :: "string list" where
  "lineas_inicio =
     [''>>> Variables de entorno cargadas.'',
      ''>>> INICIANDO EL PROCESO DE INDEXACION LOCAL (ChromaDB)...'']"

definition lineas_borrado :: "string list" where
  "lineas_borrado =
     [''>>> Borrando la base de datos antigua '' @ apos @ DIRECTORIO_PERSISTENTE @ apos
        @ ''...'',
      ''>>> Base de datos antigua borrada.'']"

definition linea_procesando :: string where
  "linea_procesando = ''>>> Procesando '' @ str_nat (length MAPA_DE_PDOTS) @ '' PDOTs...''"

definition lineas_almacen :: "nat \<Rightarrow> string list" where
  "lineas_almacen n =
     [nl @ ''>>> Total de fragmentos de todos los PDFs: '' @ str_nat n,
      ''>>> Configurando el modelo de embeddings de Google...'',
      ''>>> Modelo de embeddings listo.'',
      ''>>> Creando y guardando la nueva base de datos en '' @ apos
        @ DIRECTORIO_PERSISTENTE @ apos @ ''...'',
      ''>>> Este proceso puede tardar varios minutos...'']"

definition lineas_exito :: "string list" where
  "lineas_exito =
     [nl @ ''*** '' @ [CHR 0xA1] @ ''PROCESO DE INDEXACION LOCAL COMPLETADO CON EXITO! ***'',
      ''*** Tu nueva biblioteca '' @ apos @ DIRECTORIO_PERSISTENTE @ apos
        @ '' est'' @ [CHR 0xE1] @ '' lista. ***'']"

definition linea_error_fatal :: string where
  "linea_error_fatal =
     ''!!! ERROR FATAL: No se proces'' @ [CHR 0xF3] @ '' ning'' @ [CHR 0xFA]
     @ ''n documento.''"

text \<open>
  The script: the key check (lines 31 to 33), the removal of the old directory (lines
  36 to 39), the loop (lines 46 to 78), the empty check (lines 81 to 83) and the new
  store (lines 89 to 101). The result is how the run ends, the host afterwards and the
  lines printed.
\<close>

definition indexar :: "servicios \<Rightarrow> anfitrion \<Rightarrow> fin \<times> anfitrion \<times> string list" where
  "indexar sv h =
     (let out0 = lineas_inicio;
          GOOGLE_API_KEY = getenv h ''GOOGLE_API_KEY''
      in if \<not> truthy GOOGLE_API_KEY
         then (Exit, h,
               out0 @ [''!!! ERROR: No se encontr'' @ [CHR 0xF3]
                        @ '' la GOOGLE_API_KEY en el archivo .env''])
         else
           (let h1 = (if directorio_db h \<noteq> None then h\<lparr>directorio_db := None\<rparr> else h);
                out1 = (if directorio_db h \<noteq> None then out0 @ lineas_borrado else out0);
                out2 = out1 @ [linea_procesando];
                vuelta = bucle sv h1 MAPA_DE_PDOTS ([], out2);
                todos_los_fragmentos = fst (snd vuelta);
                out3 = snd (snd vuelta)
            in case fst vuelta of
                 Some e \<Rightarrow> (NoManejada e, h1, out3)
               | None \<Rightarrow>
                   if todos_los_fragmentos = []
                   then (Exit, h1, out3 @ [linea_error_fatal])
                   else
                     (let out4 = out3 @ lineas_almacen (length todos_los_fragmentos);
                          escrito = from_documents sv todos_los_fragmentos (directorio_db h1)
                      in case fst escrito of
                           Some e \<Rightarrow> (NoManejada e, h1\<lparr>directorio_db := snd escrito\<rparr>, out4)
                         | None \<Rightarrow>
                             (Completado, h1\<lparr>directorio_db := snd escrito\<rparr>,
                              out4 @ lineas_exito))))"

text \<open>
  An entry of the map whose file is missing on the host (the path does not exist), or
  whose loader is built and whose \<open>load()\<close> raises: the two cases the loop skips.
\<close>

definition falta_o_falla :: "anfitrion \<Rightarrow> string \<times> string \<Rightarrow> bool" where
  "falta_o_falla h par =
     (case map_of (archivos h) (strip (snd par)) of
        None \<Rightarrow> True
      | Some ruta \<Rightarrow>
          (case ruta of
             SinCargador e \<Rightarrow> False
           | ConCargador carga \<Rightarrow> (case carga of Inl e \<Rightarrow> True | Inr documentos \<Rightarrow> False)))"

text \<open>An entry of the map whose path exists and whose loader cannot be built.\<close>

definition sin_cargador :: "anfitrion \<Rightarrow> string \<times> string \<Rightarrow> bool" where
  "sin_cargador h par =
     (case map_of (archivos h) (strip (snd par)) of
        None \<Rightarrow> False
      | Some ruta \<Rightarrow> (case ruta of SinCargador e \<Rightarrow> True | ConCargador carga \<Rightarrow> False))"

section \<open>Concrete hosts and services\<close>

text \<open>
  Services that answer: the embedding of a text is its length, the distance of a chunk
  is the length of its text, the generation model answers \<open>Respuesta\<close>, every page is
  one fragment, and the traceback text ends with the exception's class and message.
\<close>

definition sv_ejemplo :: servicios where
  "sv_ejemplo =
     \<lparr>embed_query_de = (\<lambda>q. Inr [int (length q)]),
      distancia_de = (\<lambda>v d. length (page_content d)),
      invoke_de = (\<lambda>p. Inr ''Respuesta''),
      split_documents = (\<lambda>ds. ds),
      embed_documents = (\<lambda>ts. Inr (map (\<lambda>t. [int (length t)]) ts)),
      format_exc_de = (\<lambda>e. ''Traceback (most recent call last):'' @ nl
                             @ clase e @ '': '' @ str_exn e @ nl)\<rparr>"

text \<open>The same services with the embeddings provider unreachable for queries.\<close>

definition sv_sin_red :: servicios where
  "sv_sin_red =
     sv_ejemplo\<lparr>embed_query_de := (\<lambda>q. Inl (Exn ''ConnectionError'' ''network unreachable''))\<rparr>"

definition pagina_ejemplo :: documento where
  "pagina_ejemplo =
     \<lparr>page_content = ''Plan de desarrollo del canton'',
      metadata = [(''source'', ''PDOT_Paltas.pdf''), (''page'', ''0'')]\<rparr>"

definition fragmento_antiguo :: documento where
  "fragmento_antiguo =
     \<lparr>page_content = ''Version anterior'',
      metadata = [(''fuente'', ''paltas''), (''archivo_origen'', ''PDOT_Paltas.pdf'')]\<rparr>"

text \<open>
  A host with both keys, an old store, one file that loads, one that fails to load and
  two that are missing.
\<close>

definition h_ejemplo :: anfitrion where
  "h_ejemplo =
     \<lparr>environ = [(''GOOGLE_API_KEY'', ''clave-g''), (''OPENAI_API_KEY'', ''clave-o'')],
      archivos = [(''PDOT_Paltas.pdf'', ConCargador (Inr [pagina_ejemplo])),
                  (''PDOT_Pindal.pdf'',
                   ConCargador (Inl (Exn ''PdfReadError'' ''EOF marker not found'')))],
      directorio_db = Some [fragmento_antiguo]\<rparr>"

text \<open>The same host with no input file at all, and with neither files nor embeddings key.\<close>

definition h_sin_archivos :: anfitrion where
  "h_sin_archivos = h_ejemplo\<lparr>archivos := []\<rparr>"

definition h_sin_clave :: anfitrion where
  "h_sin_clave = h_ejemplo\<lparr>environ := [(''OPENAI_API_KEY'', ''clave-o'')], archivos := []\<rparr>"

text \<open>
  The host \<open>h_ejemplo\<close> with a directory named \<open>PDOT_Pindal.pdf\<close> in place of the
  file: the path exists and the loader cannot be built on it.
\<close>

definition h_directorio :: anfitrion where
  "h_directorio =
     h_ejemplo\<lparr>archivos :=
       [(''PDOT_Paltas.pdf'', ConCargador (Inr [pagina_ejemplo])),
        (''PDOT_Pindal.pdf'',
         SinCargador (Exn ''ValueError''
           ''File path PDOT_Pindal.pdf is not a valid file or url''))]\<rparr>"

text \<open>The service started on the host the indexer leaves behind.\<close>

definition estado_ejemplo :: estado where
  "estado_ejemplo =
     fst (snd (startup_event sv_ejemplo (fst (snd (indexar sv_ejemplo h_ejemplo))) estado_inicial))"

definition estado_sin_red :: estado where
  "estado_sin_red =
     fst (snd (startup_event sv_sin_red (fst (snd (indexar sv_ejemplo h_ejemplo))) estado_inicial))"

section \<open>Properties of the string functions\<close>

lemma isspace_lower_char: "isspace (lower_char c) = isspace c"
proof -
  define n where "n = (of_char c :: nat)"
  show ?thesis
  proof (cases "(65 \<le> n \<and> n \<le> 90) \<or> (192 \<le> n \<and> n \<le> 222 \<and> n \<noteq> 215)")
    case True
    then have eq: "lower_char c = char_of (n + 32)"
      by (simp add: lower_char_def n_def)
    from True have "(n + 32) mod 256 = n + 32" by auto
    then have "(of_char (char_of (n + 32)) :: nat) = n + 32"
      by (simp add: of_char_of)
    with True show ?thesis
      unfolding eq isspace_def n_def [symmetric] by auto
  next
    case False
    then have "lower_char c = c"
      unfolding lower_char_def Let_def n_def by presburger
    then show ?thesis by simp
  qed
qed

lemma list_all_isspace_lower: "list_all isspace (lower s) = list_all isspace s"
  by (induction s) (simp_all add: lower_def isspace_lower_char)

lemma lower_append: "lower (a @ b) = lower a @ lower b"
  by (simp add: lower_def)

lemma lstrip_espacios: "list_all isspace a \<Longrightarrow> lstrip (a @ x) = lstrip x"
  by (simp add: lstrip_def list_all_iff dropWhile_append2)

lemma rstrip_espacios: "list_all isspace b \<Longrightarrow> rstrip (x @ b) = rstrip x"
proof -
  assume "list_all isspace b"
  then have "dropWhile isspace (rev b @ rev x) = dropWhile isspace (rev x)"
    by (intro dropWhile_append2) (simp add: list_all_iff)
  then show ?thesis by (simp add: rstrip_def)
qed

lemma strip_solo_espacios: "list_all isspace x \<Longrightarrow> strip x = []"
proof -
  assume "list_all isspace x"
  then have d: "dropWhile isspace x = []" by (simp add: list_all_iff)
  show ?thesis by (simp add: strip_def lstrip_def rstrip_def d)
qed

lemma strip_rodeado:
  assumes a: "list_all isspace a" and b: "list_all isspace b"
  shows "strip (a @ x @ b) = strip x"
proof (cases "list_all isspace x")
  case True
  with a b have "list_all isspace (a @ x @ b)" by simp
  then show ?thesis using True by (simp add: strip_solo_espacios)
next
  case False
  then obtain c where "c \<in> set x" "\<not> isspace c" by (auto simp: list_all_iff)
  then have "lstrip (x @ b) = lstrip x @ b"
    by (simp add: lstrip_def dropWhile_append1)
  then show ?thesis using a b
    by (simp add: strip_def lstrip_espacios rstrip_espacios)
qed

lemma normaliza_rodeado:
  assumes "list_all isspace a" "list_all isspace b" "lower e' = lower e"
  shows "strip (lower (a @ e' @ b)) = strip (lower e)"
  using assms by (simp add: lower_append strip_rodeado list_all_isspace_lower)

section \<open>Properties of the query service\<close>

lemma leer_nombre_prompt_sintesis:
  "leer_nombre [(''pregunta'', p), (''entidad'', e), (''contexto_bruto'', c), (''prompt_sinitesis'', s)]
     ''prompt_sintesis''
   = Inl (Exn ''NameError'' (''name '' @ apos @ ''prompt_sintesis'' @ apos @ '' is not defined''))"
  by (simp add: leer_nombre_def)

lemma cuerpo_try_busqueda_falla:
  "similarity_search d p 10 [(''fuente'', e)] = Inl x \<Longrightarrow>
   fst (cuerpo_try d l p e) = Inl x \<and> snd (snd (cuerpo_try d l p e)) = []"
  by (simp add: cuerpo_try_def)

lemma cuerpo_try_sin_fragmentos:
  "similarity_search d p 10 [(''fuente'', e)] = Inr [] \<Longrightarrow>
   fst (cuerpo_try d l p e) = Inr [(''contexto'', mensaje_sin_contexto e)]
   \<and> snd (snd (cuerpo_try d l p e)) = []"
  by (simp add: cuerpo_try_def)

text \<open>
  With at least one chunk retrieved, the read of \<open>prompt_sintesis\<close> raises before
  \<open>llm.invoke\<close> is called, whatever the chunks, the question and the model are.
\<close>

lemma cuerpo_try_con_fragmentos:
  "similarity_search d p 10 [(''fuente'', e)] = Inr ds \<Longrightarrow> ds \<noteq> [] \<Longrightarrow>
   fst (cuerpo_try d l p e)
     = Inl (Exn ''NameError'' (''name '' @ apos @ ''prompt_sintesis'' @ apos @ '' is not defined''))
   \<and> snd (snd (cuerpo_try d l p e)) = []"
  by (simp add: cuerpo_try_def Let_def leer_nombre_prompt_sintesis)

lemma extraer_contexto_cargado:
  "db st \<noteq> None \<Longrightarrow> llm st \<noteq> None \<Longrightarrow> strip (lower (entidad_de s)) \<noteq> [] \<Longrightarrow>
   fst (extraer_contexto f st s)
     = (case fst (cuerpo_try (the (db st)) (the (llm st)) (pregunta_de s)
                    (strip (lower (entidad_de s)))) of
          Inr r \<Rightarrow> Devuelve r
        | Inl e \<Rightarrow> HTTPException 500 (''Error interno del servidor: '' @ str_exn e @ nl @ f e))
   \<and> snd (snd (extraer_contexto f st s))
     = snd (snd (cuerpo_try (the (db st)) (the (llm st)) (pregunta_de s)
                    (strip (lower (entidad_de s)))))"
  by (simp add: extraer_contexto_def Let_def split: prod.splits sum.splits)

lemma extraer_contexto_normaliza:
  "strip (lower e1) = strip (lower e2) \<Longrightarrow>
   extraer_contexto f st \<lparr>pregunta_de = p, entidad_de = e1\<rparr>
     = extraer_contexto f st \<lparr>pregunta_de = p, entidad_de = e2\<rparr>"
  by (simp add: extraer_contexto_def)

lemma startup_event_carga:
  "fst (startup_event sv h st) = None \<Longrightarrow>
   db (fst (snd (startup_event sv h st))) \<noteq> None \<and> llm (fst (snd (startup_event sv h st))) \<noteq> None"
  by (simp add: startup_event_def Let_def split: if_splits option.splits)

lemma inicio_ejemplo:
  "fst (startup_event sv_ejemplo (fst (snd (indexar sv_ejemplo h_ejemplo))) estado_inicial) = None"
  by code_simp

lemma inicio_sin_red:
  "fst (startup_event sv_sin_red (fst (snd (indexar sv_ejemplo h_ejemplo))) estado_inicial) = None"
  by code_simp

lemma estado_ejemplo_cargado: "db estado_ejemplo \<noteq> None \<and> llm estado_ejemplo \<noteq> None"
  unfolding estado_ejemplo_def using inicio_ejemplo by (rule startup_event_carga)

lemma estado_sin_red_cargado: "db estado_sin_red \<noteq> None \<and> llm estado_sin_red \<noteq> None"
  unfolding estado_sin_red_def using inicio_sin_red by (rule startup_event_carga)

text \<open>
  C1. A request for the entity \<open>paltas\<close>, on the service started over the index of
  \<open>h_ejemplo\<close>: the filtered search returns one chunk and the generation model would
  answer the synthesis prompt, yet the response is status 500 with the
  \<open>NameError\<close> of \<open>prompt_sintesis\<close>, and the generation model is not invoked.
\<close>

theorem extraer_contexto_sintesis_NameError:
  "similarity_search (the (db estado_ejemplo)) ''poblacion'' 10 [(''fuente'', ''paltas'')]
     = Inr [etiquetar ''paltas'' ''PDOT_Paltas.pdf'' pagina_ejemplo]
   \<and> invoke_de sv_ejemplo
        (prompt_de_sintesis ''paltas'' ''poblacion'' ''Plan de desarrollo del canton'')
     = Inr ''Respuesta''
   \<and> fst (extraer_contexto (format_exc_de sv_ejemplo) estado_ejemplo
            \<lparr>pregunta_de = ''poblacion'', entidad_de = ''paltas''\<rparr>)
     = HTTPException 500
         (''Error interno del servidor: name '' @ apos @ ''prompt_sintesis'' @ apos
          @ '' is not defined'' @ nl
          @ format_exc_de sv_ejemplo
              (Exn ''NameError'' (''name '' @ apos @ ''prompt_sintesis'' @ apos @ '' is not defined'')))
   \<and> snd (snd (extraer_contexto (format_exc_de sv_ejemplo) estado_ejemplo
                 \<lparr>pregunta_de = ''poblacion'', entidad_de = ''paltas''\<rparr>)) = []"
  by code_simp

text \<open>
  C2, as amended. Once the components are loaded, every request whose \<open>entidad\<close> is
  empty after lowercasing and stripping is answered with status 400.
\<close>

theorem entidad_vacia_status_400:
  assumes "db st \<noteq> None" and "llm st \<noteq> None" and "strip (lower (entidad_de s)) = []"
  shows "fst (extraer_contexto f st s)
           = HTTPException 400
               (''Error: El campo '' @ apos @ ''entidad'' @ apos @ '' no puede estar vac''
                @ [CHR 0xED] @ ''o.'')
         \<and> status_code (fst (extraer_contexto f st s)) = 400"
  using assms by (simp add: extraer_contexto_def Let_def)

theorem entidad_vacia_status_400_witness:
  "db estado_ejemplo \<noteq> None \<and> llm estado_ejemplo \<noteq> None
   \<and> strip (lower (entidad_de \<lparr>pregunta_de = ''poblacion'', entidad_de = ''  ''\<rparr>)) = []
   \<and> status_code (fst (extraer_contexto (format_exc_de sv_ejemplo) estado_ejemplo
                         \<lparr>pregunta_de = ''poblacion'', entidad_de = ''  ''\<rparr>)) = 400"
proof -
  let ?s = "\<lparr>pregunta_de = ''poblacion'', entidad_de = ''  ''\<rparr>"
  have v: "strip (lower (entidad_de ?s)) = []" by code_simp
  from estado_ejemplo_cargado have c: "db estado_ejemplo \<noteq> None" "llm estado_ejemplo \<noteq> None"
    by simp_all
  from entidad_vacia_status_400 [OF c v] c v show ?thesis by simp
qed

text \<open>
  C2 as stated fails before the components are loaded: with \<open>db\<close> and \<open>llm\<close> still
  \<open>None\<close>, the request with the empty \<open>entidad\<close> is answered with status 503.
\<close>

theorem entidad_vacia_sin_componentes_503:
  "strip (lower (entidad_de \<lparr>pregunta_de = ''poblacion'', entidad_de = []\<rparr>)) = []
   \<and> status_code (fst (extraer_contexto (format_exc_de sv_ejemplo) estado_inicial
                         \<lparr>pregunta_de = ''poblacion'', entidad_de = []\<rparr>)) = 503"
  by code_simp



text \<open>
  C8. Whenever the body of the \<open>try\<close> block raises an exception \<open>e\<close>, the response
  is status 500 and its detail ends with the traceback text of \<open>e\<close>.
\<close>

theorem excepcion_status_500:
  assumes "db st \<noteq> None" and "llm st \<noteq> None"
    and "strip (lower (entidad_de s)) \<noteq> []"
    and "fst (cuerpo_try (the (db st)) (the (llm st)) (pregunta_de s)
                (strip (lower (entidad_de s)))) = Inl e"
  shows "fst (extraer_contexto f st s)
           = HTTPException 500 (''Error interno del servidor: '' @ str_exn e @ nl @ f e)
         \<and> status_code (fst (extraer_contexto f st s)) = 500"
  using extraer_contexto_cargado [OF assms(1-3), of f] assms(4) by simp

theorem excepcion_status_500_witness:
  "db estado_sin_red \<noteq> None \<and> llm estado_sin_red \<noteq> None
   \<and> strip (lower (entidad_de \<lparr>pregunta_de = ''poblacion'', entidad_de = ''paltas''\<rparr>)) = ''paltas''
   \<and> fst (cuerpo_try (the (db estado_sin_red)) (the (llm estado_sin_red)) ''poblacion'' ''paltas'')
       = Inl (Exn ''ConnectionError'' ''network unreachable'')
   \<and> fst (extraer_contexto (format_exc_de sv_ejemplo) estado_sin_red
            \<lparr>pregunta_de = ''poblacion'', entidad_de = ''paltas''\<rparr>)
       = HTTPException 500
           (''Error interno del servidor: network unreachable'' @ nl
            @ format_exc_de sv_ejemplo (Exn ''ConnectionError'' ''network unreachable''))"
proof -
  let ?s = "\<lparr>pregunta_de = ''poblacion'', entidad_de = ''paltas''\<rparr>"
  have n: "strip (lower (entidad_de ?s)) = ''paltas''" by code_simp
  have b: "fst (cuerpo_try (the (db estado_sin_red)) (the (llm estado_sin_red))
                  ''poblacion'' ''paltas'')
             = Inl (Exn ''ConnectionError'' ''network unreachable'')" by code_simp
  from estado_sin_red_cargado have c: "db estado_sin_red \<noteq> None" "llm estado_sin_red \<noteq> None"
    by simp_all
  from excepcion_status_500 [of estado_sin_red ?s _ "format_exc_de sv_ejemplo"] c n b
  show ?thesis by simp
qed

text \<open>
  C10. The endpoint uses \<open>entidad\<close> only lowercased and stripped. Two requests with the
  same question whose normalised \<open>entidad\<close> is the same get the same response, printed
  lines and model calls; so do two whose \<open>entidad\<close> differs in letter case and
  surrounding whitespace only; a whitespace-only \<open>entidad\<close> normalises to the empty
  string and is handled as the empty one. The normalised value is the one printed on
  the first line, tested by the empty check (status 400), passed as the \<open>fuente\<close>
  filter of the search, and put in the no-information message.
\<close>

theorem entidad_normalizada:
  "(strip (lower e1) = strip (lower e2) \<longrightarrow>
      extraer_contexto f st \<lparr>pregunta_de = p, entidad_de = e1\<rparr>
        = extraer_contexto f st \<lparr>pregunta_de = p, entidad_de = e2\<rparr>)
   \<and> (list_all isspace a \<and> list_all isspace b \<and> lower e' = lower e \<longrightarrow>
      strip (lower (a @ e' @ b)) = strip (lower e)
      \<and> extraer_contexto f st \<lparr>pregunta_de = p, entidad_de = a @ e' @ b\<rparr>
          = extraer_contexto f st \<lparr>pregunta_de = p, entidad_de = e\<rparr>)
   \<and> (list_all isspace w \<longrightarrow>
      strip (lower w) = []
      \<and> extraer_contexto f st \<lparr>pregunta_de = p, entidad_de = w\<rparr>
          = extraer_contexto f st \<lparr>pregunta_de = p, entidad_de = []\<rparr>)
   \<and> hd (fst (snd (extraer_contexto f st s)))
       = ''>>> Solicitud recibida: Entidad='' @ apos @ strip (lower (entidad_de s)) @ apos
         @ '', Pregunta='' @ apos @ pregunta_de s @ apos
   \<and> (db st \<noteq> None \<and> llm st \<noteq> None \<longrightarrow>
      fst (extraer_contexto f st s)
        = (if strip (lower (entidad_de s)) = []
           then HTTPException 400
                  (''Error: El campo '' @ apos @ ''entidad'' @ apos @ '' no puede estar vac''
                   @ [CHR 0xED] @ ''o.'')
           else case similarity_search (the (db st)) (pregunta_de s) 10
                       [(''fuente'', strip (lower (entidad_de s)))] of
                  Inl x \<Rightarrow>
                    HTTPException 500
                      (''Error interno del servidor: '' @ str_exn x @ nl @ f x)
                | Inr docs_relevantes \<Rightarrow>
                    if docs_relevantes = []
                    then Devuelve
                           [(''contexto'', mensaje_sin_contexto (strip (lower (entidad_de s))))]
                    else HTTPException 500
                           (''Error interno del servidor: ''
                            @ str_exn (Exn ''NameError''
                                (''name '' @ apos @ ''prompt_sintesis'' @ apos
                                 @ '' is not defined''))
                            @ nl
                            @ f (Exn ''NameError''
                                (''name '' @ apos @ ''prompt_sintesis'' @ apos
                                 @ '' is not defined'')))))"
proof (intro conjI impI)
  assume "strip (lower e1) = strip (lower e2)"
  then show "extraer_contexto f st \<lparr>pregunta_de = p, entidad_de = e1\<rparr>
        = extraer_contexto f st \<lparr>pregunta_de = p, entidad_de = e2\<rparr>"
    by (rule extraer_contexto_normaliza)
next
  assume h: "list_all isspace a \<and> list_all isspace b \<and> lower e' = lower e"
  then show n: "strip (lower (a @ e' @ b)) = strip (lower e)"
    by (simp add: normaliza_rodeado)
  then show "extraer_contexto f st \<lparr>pregunta_de = p, entidad_de = a @ e' @ b\<rparr>
          = extraer_contexto f st \<lparr>pregunta_de = p, entidad_de = e\<rparr>"
    by (rule extraer_contexto_normaliza)
next
  assume "list_all isspace w"
  then have "list_all isspace (lower w)" by (simp add: list_all_isspace_lower)
  then show v: "strip (lower w) = []" by (rule strip_solo_espacios)
  then have "strip (lower w) = strip (lower [])"
    by (simp add: strip_solo_espacios lower_def)
  then show "extraer_contexto f st \<lparr>pregunta_de = p, entidad_de = w\<rparr>
          = extraer_contexto f st \<lparr>pregunta_de = p, entidad_de = []\<rparr>"
    by (rule extraer_contexto_normaliza)
next
  show "hd (fst (snd (extraer_contexto f st s)))
       = ''>>> Solicitud recibida: Entidad='' @ apos @ strip (lower (entidad_de s)) @ apos
         @ '', Pregunta='' @ apos @ pregunta_de s @ apos"
    by (simp add: extraer_contexto_def Let_def split: prod.splits sum.splits)
next
  assume c: "db st \<noteq> None \<and> llm st \<noteq> None"
  show "fst (extraer_contexto f st s)
        = (if strip (lower (entidad_de s)) = []
           then HTTPException 400
                  (''Error: El campo '' @ apos @ ''entidad'' @ apos @ '' no puede estar vac''
                   @ [CHR 0xED] @ ''o.'')
           else case similarity_search (the (db st)) (pregunta_de s) 10
                       [(''fuente'', strip (lower (entidad_de s)))] of
                  Inl x \<Rightarrow>
                    HTTPException 500
                      (''Error interno del servidor: '' @ str_exn x @ nl @ f x)
                | Inr docs_relevantes \<Rightarrow>
                    if docs_relevantes = []
                    then Devuelve
                           [(''contexto'', mensaje_sin_contexto (strip (lower (entidad_de s))))]
                    else HTTPException 500
                           (''Error interno del servidor: ''
                            @ str_exn (Exn ''NameError''
                                (''name '' @ apos @ ''prompt_sintesis'' @ apos
                                 @ '' is not defined''))
                            @ nl
                            @ f (Exn ''NameError''
                                (''name '' @ apos @ ''prompt_sintesis'' @ apos
                                 @ '' is not defined''))))"
  proof (cases "strip (lower (entidad_de s)) = []")
    case True
    with c show ?thesis by (simp add: extraer_contexto_def Let_def)
  next
    case False
    from c have c': "db st \<noteq> None" "llm st \<noteq> None" by simp_all
    note e = extraer_contexto_cargado [OF c' False, of f]
    show ?thesis
    proof (cases "similarity_search (the (db st)) (pregunta_de s) 10
                    [(''fuente'', strip (lower (entidad_de s)))]")
      case (Inl x)
      from cuerpo_try_busqueda_falla [OF Inl, of "the (llm st)"] e Inl False
      show ?thesis by simp
    next
      case (Inr ds)
      show ?thesis
      proof (cases "ds = []")
        case True
        with Inr have "similarity_search (the (db st)) (pregunta_de s) 10
                    [(''fuente'', strip (lower (entidad_de s)))] = Inr []" by simp
        from cuerpo_try_sin_fragmentos [OF this, of "the (llm st)"] e Inr True False
        show ?thesis by simp
      next
        case ne: False
        from cuerpo_try_con_fragmentos [OF Inr ne, of "the (llm st)"] e Inr ne False
        show ?thesis by simp
      qed
    qed
  qed
qed

theorem entidad_normalizada_witness:
  "list_all isspace [CHR 0x09, CHR '' ''] \<and> list_all isspace [CHR '' '', CHR 0x0A]
   \<and> lower ''PaLtAs'' = lower ''paltas''
   \<and> strip (lower ([CHR 0x09, CHR '' ''] @ ''PaLtAs'' @ [CHR '' '', CHR 0x0A]))
       = strip (lower ''paltas'')
   \<and> extraer_contexto (format_exc_de sv_ejemplo) estado_ejemplo
        \<lparr>pregunta_de = ''poblacion'',
           entidad_de = [CHR 0x09, CHR '' ''] @ ''PaLtAs'' @ [CHR '' '', CHR 0x0A]\<rparr>
     = extraer_contexto (format_exc_de sv_ejemplo) estado_ejemplo
        \<lparr>pregunta_de = ''poblacion'', entidad_de = ''paltas''\<rparr>
   \<and> strip (lower [CHR 0x09, CHR '' '']) = []
   \<and> extraer_contexto (format_exc_de sv_ejemplo) estado_ejemplo
        \<lparr>pregunta_de = ''poblacion'', entidad_de = [CHR 0x09, CHR '' '']\<rparr>
     = extraer_contexto (format_exc_de sv_ejemplo) estado_ejemplo
        \<lparr>pregunta_de = ''poblacion'', entidad_de = []\<rparr>
   \<and> db estado_ejemplo \<noteq> None \<and> llm estado_ejemplo \<noteq> None
   \<and> strip (lower (entidad_de \<lparr>pregunta_de = ''poblacion'', entidad_de = '' Quito ''\<rparr>))
       = ''quito''
   \<and> similarity_search (the (db estado_ejemplo)) ''poblacion'' 10 [(''fuente'', ''quito'')]
       = Inr []
   \<and> fst (extraer_contexto (format_exc_de sv_ejemplo) estado_ejemplo
            \<lparr>pregunta_de = ''poblacion'', entidad_de = '' Quito ''\<rparr>)
       = Devuelve [(''contexto'', mensaje_sin_contexto ''quito'')]
   \<and> hd (fst (snd (extraer_contexto (format_exc_de sv_ejemplo) estado_ejemplo
            \<lparr>pregunta_de = ''poblacion'', entidad_de = '' Quito ''\<rparr>)))
       = ''>>> Solicitud recibida: Entidad='' @ apos @ ''quito'' @ apos
         @ '', Pregunta='' @ apos @ ''poblacion'' @ apos"
proof -
  let ?s = "\<lparr>pregunta_de = ''poblacion'', entidad_de = '' Quito ''\<rparr>"
  have a: "list_all isspace [CHR 0x09, CHR '' '']" by code_simp
  have b: "list_all isspace [CHR '' '', CHR 0x0A]" by code_simp
  have l: "lower ''PaLtAs'' = lower ''paltas''" by code_simp
  have n: "strip (lower (entidad_de ?s)) = ''quito''" by code_simp
  have q: "similarity_search (the (db estado_ejemplo)) ''poblacion'' 10 [(''fuente'', ''quito'')]
             = Inr []" by code_simp
  note c = estado_ejemplo_cargado
  note t = entidad_normalizada [where f = "format_exc_de sv_ejemplo" and st = estado_ejemplo
      and p = "''poblacion''" and a = "[CHR 0x09, CHR '' '']" and b = "[CHR '' '', CHR 0x0A]"
      and e' = "''PaLtAs''" and e = "''paltas''" and w = "[CHR 0x09, CHR '' '']" and s = ?s]
  from t a b l have 1: "strip (lower ([CHR 0x09, CHR '' ''] @ ''PaLtAs'' @ [CHR '' '', CHR 0x0A]))
       = strip (lower ''paltas'')"
    and 2: "extraer_contexto (format_exc_de sv_ejemplo) estado_ejemplo
        \<lparr>pregunta_de = ''poblacion'',
           entidad_de = [CHR 0x09, CHR '' ''] @ ''PaLtAs'' @ [CHR '' '', CHR 0x0A]\<rparr>
     = extraer_contexto (format_exc_de sv_ejemplo) estado_ejemplo
        \<lparr>pregunta_de = ''poblacion'', entidad_de = ''paltas''\<rparr>"
    by blast+
  from t a have 3: "strip (lower [CHR 0x09, CHR '' '']) = []"
    and 4: "extraer_contexto (format_exc_de sv_ejemplo) estado_ejemplo
        \<lparr>pregunta_de = ''poblacion'', entidad_de = [CHR 0x09, CHR '' '']\<rparr>
     = extraer_contexto (format_exc_de sv_ejemplo) estado_ejemplo
        \<lparr>pregunta_de = ''poblacion'', entidad_de = []\<rparr>"
    by blast+
  from t c n q have 5: "fst (extraer_contexto (format_exc_de sv_ejemplo) estado_ejemplo ?s)
       = Devuelve [(''contexto'', mensaje_sin_contexto ''quito'')]"
    by simp
  from t n have 6: "hd (fst (snd (extraer_contexto (format_exc_de sv_ejemplo) estado_ejemplo ?s)))
       = ''>>> Solicitud recibida: Entidad='' @ apos @ ''quito'' @ apos
         @ '', Pregunta='' @ apos @ ''poblacion'' @ apos"
    by simp
  from a b l 1 2 3 4 c n q 5 6 show ?thesis by blast
qed

section \<open>Properties of the indexer\<close>

lemma procesar_pdot_directorio:
  "procesar_pdot sv (h\<lparr>directorio_db := d\<rparr>) par = procesar_pdot sv h par"
  by (simp add: procesar_pdot_def)

lemma bucle_directorio:
  "bucle sv (h\<lparr>directorio_db := d\<rparr>) ps acc = bucle sv h ps acc"
proof (induction ps arbitrary: acc)
  case Nil
  show ?case by simp
next
  case (Cons par resto)
  show ?case
    by (simp only: bucle.simps procesar_pdot_directorio Cons.IH)
qed

lemma procesar_pdot_solo_archivos:
  "archivos h' = archivos h \<Longrightarrow> procesar_pdot sv h' par = procesar_pdot sv h par"
  by (simp add: procesar_pdot_def)

lemma bucle_solo_archivos:
  assumes "archivos h' = archivos h"
  shows "bucle sv h' ps acc = bucle sv h ps acc"
proof (induction ps arbitrary: acc)
  case Nil
  show ?case by simp
next
  case (Cons par resto)
  show ?case
    by (simp only: bucle.simps procesar_pdot_solo_archivos [OF assms] Cons.IH)
qed

lemma bucle_acumula:
  "bucle sv h ps acc =
     (fst (bucle sv h ps ([], [])),
      fst acc @ fst (snd (bucle sv h ps ([], []))),
      snd acc @ snd (snd (bucle sv h ps ([], []))))"
proof (induction ps arbitrary: acc)
  case Nil
  show ?case by simp
next
  case (Cons par resto)
  let ?v = "procesar_pdot sv h par"
  show ?case
  proof (cases "fst ?v")
    case (Some e)
    then show ?thesis by simp
  next
    case None
    have a: "bucle sv h resto (fst acc @ fst (snd ?v), snd acc @ snd (snd ?v))
               = (fst (bucle sv h resto ([], [])),
                  (fst acc @ fst (snd ?v)) @ fst (snd (bucle sv h resto ([], []))),
                  (snd acc @ snd (snd ?v)) @ snd (snd (bucle sv h resto ([], []))))"
      using Cons.IH [of "(fst acc @ fst (snd ?v), snd acc @ snd (snd ?v))"] by simp
    have b: "bucle sv h resto (fst (snd ?v), snd (snd ?v))
               = (fst (bucle sv h resto ([], [])),
                  fst (snd ?v) @ fst (snd (bucle sv h resto ([], []))),
                  snd (snd ?v) @ snd (snd (bucle sv h resto ([], []))))"
      using Cons.IH [of "(fst (snd ?v), snd (snd ?v))"] by simp
    from None a b show ?thesis by simp
  qed
qed

lemma bucle_sin_excepcion:
  "list_all (\<lambda>par. fst (procesar_pdot sv h par) = None) ps \<Longrightarrow>
   bucle sv h ps acc =
     (None,
      fst acc @ concat (map (\<lambda>par. fst (snd (procesar_pdot sv h par))) ps),
      snd acc @ concat (map (\<lambda>par. snd (snd (procesar_pdot sv h par))) ps))"
  by (induction ps arbitrary: acc) simp_all

lemma procesar_pdot_excepcion:
  "fst (procesar_pdot sv h par) = None \<longleftrightarrow> \<not> sin_cargador h par"
  by (simp add: procesar_pdot_def sin_cargador_def Let_def split: option.splits ruta.splits sum.splits)

lemma procesar_pdot_falta_o_falla:
  "falta_o_falla h par \<Longrightarrow>
   fst (procesar_pdot sv h par) = None \<and> fst (snd (procesar_pdot sv h par)) = []"
  by (simp add: falta_o_falla_def procesar_pdot_def Let_def
      split: option.splits ruta.splits sum.splits)

lemma fuente_etiquetar: "map_of (metadata (etiquetar etiqueta nombre frag)) ''fuente'' = Some etiqueta"
  by (simp add: etiquetar_def update_conv')

lemma fuente_procesar_pdot:
  "d \<in> set (fst (snd (procesar_pdot sv h par))) \<Longrightarrow> map_of (metadata d) ''fuente'' = Some (fst par)"
  by (auto simp: procesar_pdot_def Let_def fuente_etiquetar
      split: option.splits ruta.splits sum.splits)

lemma fuente_bucle_acc:
  "d \<in> set (fst (snd (bucle sv h ps acc))) \<Longrightarrow>
   d \<in> set (fst acc) \<or> (\<exists>par \<in> set ps. map_of (metadata d) ''fuente'' = Some (fst par))"
proof (induction ps arbitrary: acc)
  case Nil
  then show ?case by simp
next
  case (Cons par resto)
  show ?case
  proof (cases "fst (procesar_pdot sv h par)")
    case (Some e)
    with Cons.prems show ?thesis by (auto dest: fuente_procesar_pdot)
  next
    case None
    with Cons.prems Cons.IH [of "(fst acc @ fst (snd (procesar_pdot sv h par)),
                                  snd acc @ snd (snd (procesar_pdot sv h par)))"]
    show ?thesis by (auto dest: fuente_procesar_pdot)
  qed
qed

lemma fuente_bucle:
  "d \<in> set (fst (snd (bucle sv h ps ([], out)))) \<Longrightarrow>
   \<exists>par \<in> set ps. map_of (metadata d) ''fuente'' = Some (fst par)"
  using fuente_bucle_acc [of d sv h ps "([], out)"] by simp

lemma borrado: "(if directorio_db h \<noteq> None then h\<lparr>directorio_db := None\<rparr> else h)
                  = h\<lparr>directorio_db := None\<rparr>"
  by simp

lemma indexar_sin_clave:
  "\<not> truthy (getenv h ''GOOGLE_API_KEY'') \<Longrightarrow>
   fst (indexar sv h) = Exit \<and> fst (snd (indexar sv h)) = h"
  by (simp add: indexar_def Let_def)

lemma bucle_limpio:
  "bucle sv (h\<lparr>directorio_db := None\<rparr>) ps ([], out)
     = (fst (bucle sv h ps ([], [])), fst (snd (bucle sv h ps ([], []))),
        out @ snd (snd (bucle sv h ps ([], []))))"
  using bucle_acumula [of sv h ps "([], out)"] unfolding bucle_directorio by simp

lemma indexar_con_clave:
  assumes "truthy (getenv h ''GOOGLE_API_KEY'')"
  shows "fst (indexar sv h) =
           (case fst (bucle sv h MAPA_DE_PDOTS ([], [])) of
              Some e \<Rightarrow> NoManejada e
            | None \<Rightarrow>
                if fst (snd (bucle sv h MAPA_DE_PDOTS ([], []))) = [] then Exit
                else case embed_documents sv
                            (map page_content (fst (snd (bucle sv h MAPA_DE_PDOTS ([], []))))) of
                       Inl e \<Rightarrow> NoManejada e
                     | Inr vs \<Rightarrow> Completado)"
    and "fst (snd (indexar sv h)) =
           h\<lparr>directorio_db :=
               (case fst (bucle sv h MAPA_DE_PDOTS ([], [])) of
                  Some e \<Rightarrow> None
                | None \<Rightarrow>
                    if fst (snd (bucle sv h MAPA_DE_PDOTS ([], []))) = [] then None
                    else case embed_documents sv
                                (map page_content (fst (snd (bucle sv h MAPA_DE_PDOTS ([], []))))) of
                           Inl e \<Rightarrow> Some []
                         | Inr vs \<Rightarrow> Some (fst (snd (bucle sv h MAPA_DE_PDOTS ([], [])))))\<rparr>"
    and "snd (snd (indexar sv h)) =
           (lineas_inicio @ (if directorio_db h \<noteq> None then lineas_borrado else [])
              @ [linea_procesando])
           @ snd (snd (bucle sv h MAPA_DE_PDOTS ([], [])))
           @ (case fst (bucle sv h MAPA_DE_PDOTS ([], [])) of
                Some e \<Rightarrow> []
              | None \<Rightarrow>
                  if fst (snd (bucle sv h MAPA_DE_PDOTS ([], []))) = []
                  then [linea_error_fatal]
                  else lineas_almacen (length (fst (snd (bucle sv h MAPA_DE_PDOTS ([], [])))))
                       @ (case embed_documents sv
                                 (map page_content
                                    (fst (snd (bucle sv h MAPA_DE_PDOTS ([], []))))) of
                            Inl e \<Rightarrow> []
                          | Inr vs \<Rightarrow> lineas_exito))"
proof -
  show "fst (indexar sv h) =
           (case fst (bucle sv h MAPA_DE_PDOTS ([], [])) of
              Some e \<Rightarrow> NoManejada e
            | None \<Rightarrow>
                if fst (snd (bucle sv h MAPA_DE_PDOTS ([], []))) = [] then Exit
                else case embed_documents sv
                            (map page_content (fst (snd (bucle sv h MAPA_DE_PDOTS ([], []))))) of
                       Inl e \<Rightarrow> NoManejada e
                     | Inr vs \<Rightarrow> Completado)"
    using assms unfolding indexar_def Let_def borrado bucle_limpio from_documents_def
    by (simp split: option.splits sum.splits)
  show "fst (snd (indexar sv h)) =
           h\<lparr>directorio_db :=
               (case fst (bucle sv h MAPA_DE_PDOTS ([], [])) of
                  Some e \<Rightarrow> None
                | None \<Rightarrow>
                    if fst (snd (bucle sv h MAPA_DE_PDOTS ([], []))) = [] then None
                    else case embed_documents sv
                                (map page_content (fst (snd (bucle sv h MAPA_DE_PDOTS ([], []))))) of
                           Inl e \<Rightarrow> Some []
                         | Inr vs \<Rightarrow> Some (fst (snd (bucle sv h MAPA_DE_PDOTS ([], [])))))\<rparr>"
    using assms unfolding indexar_def Let_def borrado bucle_limpio from_documents_def
    by (simp split: option.splits sum.splits)
  show "snd (snd (indexar sv h)) =
           (lineas_inicio @ (if directorio_db h \<noteq> None then lineas_borrado else [])
              @ [linea_procesando])
           @ snd (snd (bucle sv h MAPA_DE_PDOTS ([], [])))
           @ (case fst (bucle sv h MAPA_DE_PDOTS ([], [])) of
                Some e \<Rightarrow> []
              | None \<Rightarrow>
                  if fst (snd (bucle sv h MAPA_DE_PDOTS ([], []))) = []
                  then [linea_error_fatal]
                  else lineas_almacen (length (fst (snd (bucle sv h MAPA_DE_PDOTS ([], [])))))
                       @ (case embed_documents sv
                                 (map page_content
                                    (fst (snd (bucle sv h MAPA_DE_PDOTS ([], []))))) of
                            Inl e \<Rightarrow> []
                          | Inr vs \<Rightarrow> lineas_exito))"
    using assms unfolding indexar_def Let_def borrado bucle_limpio from_documents_def
    by (auto split: option.splits sum.splits)
qed

lemma indexar_conserva:
  "environ (fst (snd (indexar sv h))) = environ h
   \<and> archivos (fst (snd (indexar sv h))) = archivos h"
proof (cases "truthy (getenv h ''GOOGLE_API_KEY'')")
  case True
  then show ?thesis by (simp add: indexar_con_clave(2))
next
  case False
  then show ?thesis by (simp add: indexar_sin_clave)
qed

text \<open>
  C4. A second run of the indexer on the host the first run leaves behind gives the
  same store. A run that completes leaves exactly the fragments of its own loop in the
  store, and with the embeddings key set the store after the run does not depend on
  what the directory held before: the directory is removed before anything is written.
\<close>

theorem indexar_idempotente:
  "directorio_db (fst (snd (indexar sv (fst (snd (indexar sv h))))))
     = directorio_db (fst (snd (indexar sv h)))
   \<and> (fst (indexar sv h) = Completado \<longrightarrow>
        directorio_db (fst (snd (indexar sv h)))
          = Some (fst (snd (bucle sv h MAPA_DE_PDOTS ([], [])))))
   \<and> (truthy (getenv h ''GOOGLE_API_KEY'') \<longrightarrow>
        directorio_db (fst (snd (indexar sv (h\<lparr>directorio_db := anterior\<rparr>))))
          = directorio_db (fst (snd (indexar sv h))))"
proof (cases "truthy (getenv h ''GOOGLE_API_KEY'')")
  case False
  then show ?thesis by (simp add: indexar_sin_clave)
next
  case True
  let ?h' = "fst (snd (indexar sv h))"
  have env: "environ ?h' = environ h" and arch: "archivos ?h' = archivos h"
    using indexar_conserva [of sv h] by simp_all
  from True env have key': "truthy (getenv ?h' ''GOOGLE_API_KEY'')"
    by (simp add: getenv_def)
  have same: "bucle sv ?h' MAPA_DE_PDOTS ([], []) = bucle sv h MAPA_DE_PDOTS ([], [])"
    using arch by (rule bucle_solo_archivos)
  have idem: "directorio_db (fst (snd (indexar sv ?h'))) = directorio_db ?h'"
    unfolding indexar_con_clave(2) [OF key'] same
    unfolding indexar_con_clave(2) [OF True] by simp
  have compl: "fst (indexar sv h) = Completado \<longrightarrow>
        directorio_db ?h' = Some (fst (snd (bucle sv h MAPA_DE_PDOTS ([], []))))"
    unfolding indexar_con_clave(1,2) [OF True] by (simp split: option.splits sum.splits)
  from True have keya: "truthy (getenv (h\<lparr>directorio_db := anterior\<rparr>) ''GOOGLE_API_KEY'')"
    by (simp add: getenv_def)
  have indep: "directorio_db (fst (snd (indexar sv (h\<lparr>directorio_db := anterior\<rparr>))))
                 = directorio_db ?h'"
    unfolding indexar_con_clave(2) [OF keya] indexar_con_clave(2) [OF True] bucle_directorio
    by simp
  from idem compl indep show ?thesis by simp
qed

theorem indexar_idempotente_witness:
  "fst (indexar sv_ejemplo h_ejemplo) = Completado
   \<and> truthy (getenv h_ejemplo ''GOOGLE_API_KEY'')
   \<and> directorio_db h_ejemplo = Some [fragmento_antiguo]
   \<and> directorio_db (fst (snd (indexar sv_ejemplo h_ejemplo)))
       = Some [etiquetar ''paltas'' ''PDOT_Paltas.pdf'' pagina_ejemplo]
   \<and> directorio_db (fst (snd (indexar sv_ejemplo (fst (snd (indexar sv_ejemplo h_ejemplo))))))
       = Some [etiquetar ''paltas'' ''PDOT_Paltas.pdf'' pagina_ejemplo]
   \<and> directorio_db (fst (snd (indexar sv_ejemplo (h_ejemplo\<lparr>directorio_db := None\<rparr>))))
       = Some [etiquetar ''paltas'' ''PDOT_Paltas.pdf'' pagina_ejemplo]"
proof -
  have c: "fst (indexar sv_ejemplo h_ejemplo) = Completado" by code_simp
  have k: "truthy (getenv h_ejemplo ''GOOGLE_API_KEY'')" by code_simp
  have d: "directorio_db h_ejemplo = Some [fragmento_antiguo]" by (simp add: h_ejemplo_def)
  have F: "fst (snd (bucle sv_ejemplo h_ejemplo MAPA_DE_PDOTS ([], [])))
             = [etiquetar ''paltas'' ''PDOT_Paltas.pdf'' pagina_ejemplo]" by code_simp
  from indexar_idempotente [of sv_ejemplo h_ejemplo None] c k d F show ?thesis by simp
qed

lemma bucle_excepcion:
  "fst (bucle sv h ps acc) = None \<longleftrightarrow> list_all (\<lambda>par. \<not> sin_cargador h par) ps"
proof (induction ps arbitrary: acc)
  case Nil
  show ?case by simp
next
  case (Cons par resto)
  show ?case
  proof (cases "fst (procesar_pdot sv h par)")
    case None
    then have "\<not> sin_cargador h par" by (simp add: procesar_pdot_excepcion)
    with None Cons.IH show ?thesis by simp
  next
    case (Some e)
    then have "sin_cargador h par" using procesar_pdot_excepcion [of sv h par] by simp
    with Some show ?thesis by simp
  qed
qed

lemma bucle_todos_saltados:
  assumes "list_all (falta_o_falla h) ps"
  shows "fst (bucle sv h ps ([], out)) = None \<and> fst (snd (bucle sv h ps ([], out))) = []"
proof -
  from assms have "list_all (\<lambda>par. fst (procesar_pdot sv h par) = None) ps"
    by (simp add: list_all_iff procesar_pdot_falta_o_falla)
  from bucle_sin_excepcion [OF this] assms show ?thesis
    by (simp add: list_all_iff procesar_pdot_falta_o_falla)
qed

text \<open>
  C9, as amended. With the embeddings key set, the old directory is removed before any
  file is examined: the lines of the removal are printed before every line of the loop,
  and a run that ends in the loop, on a path where the loader cannot be built, has
  already lost the store. Consequently a run in which every entry of the map is missing
  or fails to load ends at \<open>exit()\<close> with the fatal message as its last line and no
  store directory on the host; nor is a store left when some of those entries are
  paths where the loader cannot be built.
\<close>

theorem todos_saltados_sin_almacen:
  assumes "truthy (getenv h ''GOOGLE_API_KEY'')"
  shows "(\<exists>fin. snd (snd (indexar sv h))
            = lineas_inicio @ (if directorio_db h \<noteq> None then lineas_borrado else [])
              @ [linea_procesando] @ snd (snd (bucle sv h MAPA_DE_PDOTS ([], []))) @ fin)
         \<and> ((\<exists>par \<in> set MAPA_DE_PDOTS. sin_cargador h par) \<longrightarrow>
              (\<exists>e. fst (indexar sv h) = NoManejada e)
              \<and> directorio_db (fst (snd (indexar sv h))) = None)
         \<and> (list_all (falta_o_falla h) MAPA_DE_PDOTS \<longrightarrow>
              fst (indexar sv h) = Exit
              \<and> directorio_db (fst (snd (indexar sv h))) = None
              \<and> last (snd (snd (indexar sv h))) = linea_error_fatal)
         \<and> (list_all (\<lambda>par. falta_o_falla h par \<or> sin_cargador h par) MAPA_DE_PDOTS \<longrightarrow>
              fst (indexar sv h) \<noteq> Completado
              \<and> directorio_db (fst (snd (indexar sv h))) = None)"
proof -
  let ?B = "bucle sv h MAPA_DE_PDOTS ([], [])"
  note ic = indexar_con_clave [OF assms, of sv]
  have orden: "\<exists>fin. snd (snd (indexar sv h))
            = lineas_inicio @ (if directorio_db h \<noteq> None then lineas_borrado else [])
              @ [linea_procesando] @ snd (snd ?B) @ fin"
    unfolding ic(3) by simp
  have aborta: "(\<exists>e. fst (indexar sv h) = NoManejada e)
                \<and> directorio_db (fst (snd (indexar sv h))) = None"
    if "\<exists>par \<in> set MAPA_DE_PDOTS. sin_cargador h par"
  proof -
    from that have "fst ?B \<noteq> None"
      unfolding bucle_excepcion by (auto simp: list_all_iff)
    then obtain e where "fst ?B = Some e" by auto
    then show ?thesis unfolding ic(1,2) by simp
  qed
  have saltados: "fst (indexar sv h) = Exit
              \<and> directorio_db (fst (snd (indexar sv h))) = None
              \<and> last (snd (snd (indexar sv h))) = linea_error_fatal"
    if "list_all (falta_o_falla h) MAPA_DE_PDOTS"
  proof -
    from bucle_todos_saltados [OF that, of sv "[]"]
    have B: "fst ?B = None" "fst (snd ?B) = []" by simp_all
    have "last (snd (snd (indexar sv h))) = linea_error_fatal"
      unfolding ic(3) using B by simp
    with B show ?thesis unfolding ic(1,2) by simp
  qed
  have ninguno: "fst (indexar sv h) \<noteq> Completado
              \<and> directorio_db (fst (snd (indexar sv h))) = None"
    if a: "list_all (\<lambda>par. falta_o_falla h par \<or> sin_cargador h par) MAPA_DE_PDOTS"
  proof (cases "\<exists>par \<in> set MAPA_DE_PDOTS. sin_cargador h par")
    case True
    from aborta [OF True] show ?thesis by auto
  next
    case False
    with a have "list_all (falta_o_falla h) MAPA_DE_PDOTS" by (auto simp: list_all_iff)
    from saltados [OF this] show ?thesis by simp
  qed
  from orden aborta saltados ninguno show ?thesis by blast
qed

theorem todos_saltados_sin_almacen_witness:
  "truthy (getenv h_sin_archivos ''GOOGLE_API_KEY'')
   \<and> list_all (falta_o_falla h_sin_archivos) MAPA_DE_PDOTS
   \<and> directorio_db h_sin_archivos = Some [fragmento_antiguo]
   \<and> fst (indexar sv_ejemplo h_sin_archivos) = Exit
   \<and> directorio_db (fst (snd (indexar sv_ejemplo h_sin_archivos))) = None
   \<and> last (snd (snd (indexar sv_ejemplo h_sin_archivos))) = linea_error_fatal
   \<and> truthy (getenv h_directorio ''GOOGLE_API_KEY'')
   \<and> (''pindal'', ''PDOT_Pindal.pdf'') \<in> set MAPA_DE_PDOTS
   \<and> sin_cargador h_directorio (''pindal'', ''PDOT_Pindal.pdf'')
   \<and> directorio_db h_directorio = Some [fragmento_antiguo]
   \<and> (\<exists>e. fst (indexar sv_ejemplo h_directorio) = NoManejada e)
   \<and> directorio_db (fst (snd (indexar sv_ejemplo h_directorio))) = None
   \<and> (\<exists>fin. snd (snd (indexar sv_ejemplo h_directorio))
         = lineas_inicio @ lineas_borrado @ [linea_procesando]
           @ snd (snd (bucle sv_ejemplo h_directorio MAPA_DE_PDOTS ([], []))) @ fin)"
proof -
  have k: "truthy (getenv h_sin_archivos ''GOOGLE_API_KEY'')" by code_simp
  have a: "list_all (falta_o_falla h_sin_archivos) MAPA_DE_PDOTS" by code_simp
  have d: "directorio_db h_sin_archivos = Some [fragmento_antiguo]"
    by (simp add: h_sin_archivos_def h_ejemplo_def)
  have k': "truthy (getenv h_directorio ''GOOGLE_API_KEY'')" by code_simp
  have m: "(''pindal'', ''PDOT_Pindal.pdf'') \<in> set MAPA_DE_PDOTS"
    by (simp add: MAPA_DE_PDOTS_def)
  have s: "sin_cargador h_directorio (''pindal'', ''PDOT_Pindal.pdf'')" by code_simp
  have d': "directorio_db h_directorio = Some [fragmento_antiguo]"
    by (simp add: h_directorio_def h_ejemplo_def)
  from m s have ex: "\<exists>par \<in> set MAPA_DE_PDOTS. sin_cargador h_directorio par" by blast
  from todos_saltados_sin_almacen [OF k, of sv_ejemplo] a
  have 1: "fst (indexar sv_ejemplo h_sin_archivos) = Exit
           \<and> directorio_db (fst (snd (indexar sv_ejemplo h_sin_archivos))) = None
           \<and> last (snd (snd (indexar sv_ejemplo h_sin_archivos))) = linea_error_fatal"
    by blast
  from todos_saltados_sin_almacen [OF k', of sv_ejemplo] ex
  have 2: "(\<exists>e. fst (indexar sv_ejemplo h_directorio) = NoManejada e)
           \<and> directorio_db (fst (snd (indexar sv_ejemplo h_directorio))) = None"
    by blast
  from todos_saltados_sin_almacen [OF k', of sv_ejemplo] d'
  have 3: "\<exists>fin. snd (snd (indexar sv_ejemplo h_directorio))
         = lineas_inicio @ lineas_borrado @ [linea_procesando]
           @ snd (snd (bucle sv_ejemplo h_directorio MAPA_DE_PDOTS ([], []))) @ fin"
    by simp
  from k a d 1 k' m s d' 2 3 show ?thesis by blast
qed

text \<open>
  C9 as stated fails without the embeddings key: every file of the map is missing on
  \<open>h_sin_clave\<close>, the run ends at the first \<open>exit()\<close>, and the old store is still
  on the host.
\<close>

theorem sin_clave_conserva_almacen:
  "list_all (falta_o_falla h_sin_clave) MAPA_DE_PDOTS
   \<and> fst (indexar sv_ejemplo h_sin_clave) = Exit
   \<and> directorio_db (fst (snd (indexar sv_ejemplo h_sin_clave))) = Some [fragmento_antiguo]"
  by code_simp




text \<open>
  On \<open>h_directorio\<close> the key is set and the path of \<open>pindal\<close> is a directory: the
  run ends there with the \<open>ValueError\<close> of the loader, the fragment of \<open>paltas\<close>
  is not stored, and the missing file of \<open>catamayo\<close> is never reached.
\<close>

lemma directorio_termina_la_ejecucion:
  "truthy (getenv h_directorio ''GOOGLE_API_KEY'')
   \<and> map_of (archivos h_directorio) (strip ''PDyOT_Catamayo.pdf'') = None
   \<and> fst (indexar sv_ejemplo h_directorio)
       = NoManejada (Exn ''ValueError'' ''File path PDOT_Pindal.pdf is not a valid file or url'')
   \<and> directorio_db (fst (snd (indexar sv_ejemplo h_directorio))) = None
   \<and> aviso_no_encontrado (strip ''PDyOT_Catamayo.pdf'')
       \<notin> set (snd (snd (indexar sv_ejemplo h_directorio)))"
  by code_simp

section \<open>Configuration\<close>

text \<open>
  C7. The service reads both keys from the process environment, and when either is
  absent (or empty) the startup event raises the \<open>ValueError\<close> and leaves the
  globals as they were; a startup that succeeds had both keys. The indexer reads the
  embeddings key only, and without it ends at \<open>exit()\<close> with the host untouched.
\<close>

theorem claves_ausentes_error_fatal:
  "(\<not> (truthy (getenv h ''GOOGLE_API_KEY'') \<and> truthy (getenv h ''OPENAI_API_KEY'')) \<longrightarrow>
      fst (startup_event sv h st)
        = Some (Exn ''ValueError''
            ''!!! ERROR FATAL: Faltan claves (GOOGLE o OPENAI) en las variables de entorno.'')
      \<and> fst (snd (startup_event sv h st)) = st)
   \<and> (fst (startup_event sv h st) = None \<longrightarrow>
      truthy (map_of (environ h) ''GOOGLE_API_KEY'')
      \<and> truthy (map_of (environ h) ''OPENAI_API_KEY''))
   \<and> (\<not> truthy (getenv h ''GOOGLE_API_KEY'') \<longrightarrow>
      fst (indexar sv h) = Exit \<and> fst (snd (indexar sv h)) = h)"
  by (auto simp: startup_event_def indexar_sin_clave getenv_def Let_def split: option.splits)

theorem claves_ausentes_error_fatal_witness:
  "\<not> (truthy (getenv h_sin_clave ''GOOGLE_API_KEY'') \<and> truthy (getenv h_sin_clave ''OPENAI_API_KEY''))
   \<and> fst (startup_event sv_ejemplo h_sin_clave estado_inicial)
       = Some (Exn ''ValueError''
            ''!!! ERROR FATAL: Faltan claves (GOOGLE o OPENAI) en las variables de entorno.'')
   \<and> \<not> (truthy (getenv (h_ejemplo\<lparr>environ := [(''GOOGLE_API_KEY'', ''clave-g'')]\<rparr>) ''GOOGLE_API_KEY'')
        \<and> truthy (getenv (h_ejemplo\<lparr>environ := [(''GOOGLE_API_KEY'', ''clave-g'')]\<rparr>) ''OPENAI_API_KEY''))
   \<and> fst (startup_event sv_ejemplo (h_ejemplo\<lparr>environ := [(''GOOGLE_API_KEY'', ''clave-g'')]\<rparr>)
             estado_inicial)
       = Some (Exn ''ValueError''
            ''!!! ERROR FATAL: Faltan claves (GOOGLE o OPENAI) en las variables de entorno.'')
   \<and> fst (startup_event sv_ejemplo h_ejemplo estado_inicial) = None
   \<and> truthy (map_of (environ h_ejemplo) ''GOOGLE_API_KEY'')
   \<and> truthy (map_of (environ h_ejemplo) ''OPENAI_API_KEY'')
   \<and> \<not> truthy (getenv h_sin_clave ''GOOGLE_API_KEY'')
   \<and> fst (indexar sv_ejemplo h_sin_clave) = Exit"
proof -
  let ?h = "h_ejemplo\<lparr>environ := [(''GOOGLE_API_KEY'', ''clave-g'')]\<rparr>"
  have g: "\<not> truthy (getenv h_sin_clave ''GOOGLE_API_KEY'')" by code_simp
  have o: "\<not> truthy (getenv ?h ''OPENAI_API_KEY'')" by code_simp
  have s: "fst (startup_event sv_ejemplo h_ejemplo estado_inicial) = None" by code_simp
  from claves_ausentes_error_fatal [of h_sin_clave sv_ejemplo estado_inicial]
    claves_ausentes_error_fatal [of ?h sv_ejemplo estado_inicial]
    claves_ausentes_error_fatal [of h_ejemplo sv_ejemplo estado_inicial] g o s
  show ?thesis by blast
qed

section \<open>The indexer and the service together\<close>

lemma similarity_search_sin_coincidencias:
  assumes "embed_query d q = Inr v"
    and "\<And>x. x \<in> set (coleccion d) \<Longrightarrow> map_of (metadata x) ''fuente'' \<noteq> Some e"
  shows "similarity_search d q k [(''fuente'', e)] = Inr []"
proof -
  from assms(2) have "filter (coincide [(''fuente'', e)]) (coleccion d) = []"
    by (simp add: filter_empty_conv coincide_def)
  with assms(1) show ?thesis by (simp add: similarity_search_def)
qed

lemma startup_event_exito:
  assumes "fst (startup_event sv h st) = None"
  shows "truthy (getenv h ''GOOGLE_API_KEY'')"
    and "\<exists>chunks. directorio_db h = Some chunks
           \<and> db (fst (snd (startup_event sv h st)))
               = Some \<lparr>coleccion = chunks, embed_query = embed_query_de sv,
                        distancia = distancia_de sv\<rparr>"
  using assms by (auto simp: startup_event_def Let_def split: if_splits option.splits)

lemma indexar_almacen_etiquetado:
  assumes "truthy (getenv h ''GOOGLE_API_KEY'')"
    and "directorio_db (fst (snd (indexar sv h))) = Some chunks"
    and "d \<in> set chunks"
  shows "\<exists>par \<in> set MAPA_DE_PDOTS. map_of (metadata d) ''fuente'' = Some (fst par)"
proof -
  from assms(2,3) have "d \<in> set (fst (snd (bucle sv h MAPA_DE_PDOTS ([], []))))"
    unfolding indexar_con_clave(2) [OF assms(1)]
    by (auto split: if_splits option.splits sum.splits)
  then show ?thesis by (rule fuente_bucle)
qed

text \<open>
  C6, as amended. The service is started on the host a run of the indexer leaves
  behind. A request whose \<open>entidad\<close>, lowercased and stripped, is not empty and is not
  a label of \<open>MAPA_DE_PDOTS\<close>, and whose question the embeddings provider embeds,
  retrieves no chunk and is answered with status 200 and the no-information message.
\<close>

theorem etiqueta_desconocida_sin_contexto:
  assumes ok: "fst (startup_event sv' (fst (snd (indexar sv h))) st0) = None"
    and ne: "strip (lower (entidad_de s)) \<noteq> []"
    and nm: "strip (lower (entidad_de s)) \<notin> fst ` set MAPA_DE_PDOTS"
    and eq: "embed_query_de sv' (pregunta_de s) = Inr v"
  shows "similarity_search
           (the (db (fst (snd (startup_event sv' (fst (snd (indexar sv h))) st0))))) (pregunta_de s)
           10 [(''fuente'', strip (lower (entidad_de s)))] = Inr []
         \<and> fst (extraer_contexto f (fst (snd (startup_event sv' (fst (snd (indexar sv h))) st0))) s)
             = Devuelve [(''contexto'', mensaje_sin_contexto (strip (lower (entidad_de s))))]
         \<and> status_code
             (fst (extraer_contexto f (fst (snd (startup_event sv' (fst (snd (indexar sv h))) st0))) s))
             = 200"
proof -
  let ?h' = "fst (snd (indexar sv h))"
  let ?st = "fst (snd (startup_event sv' ?h' st0))"
  let ?e = "strip (lower (entidad_de s))"
  from startup_event_exito [OF ok] obtain chunks
    where key': "truthy (getenv ?h' ''GOOGLE_API_KEY'')"
      and dir: "directorio_db ?h' = Some chunks"
      and dbst: "db ?st = Some \<lparr>coleccion = chunks, embed_query = embed_query_de sv',
                                distancia = distancia_de sv'\<rparr>"
    by blast
  from key' indexar_conserva [of sv h] have key: "truthy (getenv h ''GOOGLE_API_KEY'')"
    by (simp add: getenv_def)
  have none: "map_of (metadata x) ''fuente'' \<noteq> Some ?e" if "x \<in> set chunks" for x
  proof -
    from indexar_almacen_etiquetado [OF key dir that] obtain par
      where "par \<in> set MAPA_DE_PDOTS" "map_of (metadata x) ''fuente'' = Some (fst par)"
      by blast
    with nm show ?thesis by force
  qed
  have busca: "similarity_search (the (db ?st)) (pregunta_de s) 10 [(''fuente'', ?e)] = Inr []"
    unfolding dbst option.sel
    by (rule similarity_search_sin_coincidencias [where v = v]) (simp_all add: eq none)
  from startup_event_carga [OF ok] have c: "db ?st \<noteq> None" "llm ?st \<noteq> None" by simp_all
  from extraer_contexto_cargado [OF c ne, of f]
    cuerpo_try_sin_fragmentos [OF busca, of "the (llm ?st)"] busca
  show ?thesis by simp
qed

theorem etiqueta_desconocida_sin_contexto_witness:
  "fst (startup_event sv_ejemplo (fst (snd (indexar sv_ejemplo h_ejemplo))) estado_inicial) = None
   \<and> strip (lower (entidad_de \<lparr>pregunta_de = ''poblacion'', entidad_de = ''Quito''\<rparr>)) = ''quito''
   \<and> ''quito'' \<notin> fst ` set MAPA_DE_PDOTS
   \<and> embed_query_de sv_ejemplo ''poblacion'' = Inr [9]
   \<and> fst (extraer_contexto (format_exc_de sv_ejemplo) estado_ejemplo
            \<lparr>pregunta_de = ''poblacion'', entidad_de = ''Quito''\<rparr>)
       = Devuelve [(''contexto'', mensaje_sin_contexto ''quito'')]
   \<and> status_code (fst (extraer_contexto (format_exc_de sv_ejemplo) estado_ejemplo
            \<lparr>pregunta_de = ''poblacion'', entidad_de = ''Quito''\<rparr>)) = 200"
proof -
  let ?s = "\<lparr>pregunta_de = ''poblacion'', entidad_de = ''Quito''\<rparr>"
  have n: "strip (lower (entidad_de ?s)) = ''quito''" by code_simp
  have m: "''quito'' \<notin> fst ` set MAPA_DE_PDOTS" by (simp add: MAPA_DE_PDOTS_def)
  have q: "embed_query_de sv_ejemplo (pregunta_de ?s) = Inr [9]" by (simp add: sv_ejemplo_def)
  from etiqueta_desconocida_sin_contexto [of sv_ejemplo sv_ejemplo h_ejemplo estado_inicial ?s "[9]" "format_exc_de sv_ejemplo"]
    inicio_ejemplo n m q
  show ?thesis unfolding estado_ejemplo_def by simp
qed

text \<open>
  C6 as stated fails for the empty \<open>entidad\<close>: it is not a label of the map, and the
  request is answered with status 400.
\<close>

theorem entidad_vacia_no_es_etiqueta_400:
  "strip (lower (entidad_de \<lparr>pregunta_de = ''poblacion'', entidad_de = []\<rparr>))
     \<notin> fst ` set MAPA_DE_PDOTS
   \<and> status_code (fst (extraer_contexto (format_exc_de sv_ejemplo) estado_ejemplo
                         \<lparr>pregunta_de = ''poblacion'', entidad_de = []\<rparr>)) = 400"
proof -
  have "strip (lower (entidad_de \<lparr>pregunta_de = ''poblacion'', entidad_de = []\<rparr>)) = []"
    by code_simp
  moreover have "[] \<notin> fst ` set MAPA_DE_PDOTS" by (simp add: MAPA_DE_PDOTS_def)
  moreover have "status_code (fst (extraer_contexto (format_exc_de sv_ejemplo) estado_ejemplo
                         \<lparr>pregunta_de = ''poblacion'', entidad_de = []\<rparr>)) = 400"
    by code_simp
  ultimately show ?thesis by simp
qed

end
